theory Spec2Isabelle
  imports Main
begin

section \<open>The CephFS provisioner (cephfs/cephfs-provisioner.go)\<close>

text \<open>
  A shallow embedding of \<^verbatim>\<open>Provision\<close>, \<^verbatim>\<open>Delete\<close>, \<^verbatim>\<open>parseParameters\<close>,
  \<^verbatim>\<open>parsePVSecret\<close> and \<^verbatim>\<open>getClassForVolume\<close>. Go strings are byte lists
  (\<^typ>\<open>string\<close>). A Go map that the code only looks up is a HOL map; a Go map that the
  code ranges over is the list of its entries in the order the range statement visits
  them (Go leaves that order open, so a statement about every list covers every order).
  Every \<^verbatim>\<open>return ..., err\<close> of the source is an \<open>Err\<close> branch, every run-time panic
  (nil dereference, slice bounds) a \<open>Panic\<close> branch. Logging through glog is left out.
\<close>

subsection \<open>Constants (lines 40-48)\<close>

definition provisionCmd :: string where
  "provisionCmd = ''/usr/local/bin/cephfs_provisioner''"

definition provisionerIDAnn :: string where
  "provisionerIDAnn = ''cephFSProvisionerIdentity''"

definition cephShareAnn :: string where
  "cephShareAnn = ''cephShare''"

definition storageClassAnn :: string where
  "storageClassAnn = ''volume.beta.kubernetes.io/storage-class''"

subsection \<open>Data\<close>

text \<open>\<^verbatim>\<open>provisionOutput\<close> (lines 50-54): the JSON keys are path, user and auth.\<close>

record provisionOutput =
  Path :: string
  User :: string
  Secret :: string

text \<open>\<^verbatim>\<open>v1.Secret\<close>: the fields the code sets or reads. \<open>Secret_Data\<close> is ranged over.\<close>

record secret =
  Secret_Namespace :: string
  Secret_Name :: string
  Secret_Data :: "(string \<times> string) list"
  Secret_Type :: string

record storageClass =
  Class_Parameters :: "(string \<times> string) list"

text \<open>
  \<^verbatim>\<open>v1.CephFSVolumeSource\<close>; \<open>SecretRef\<close> is a pointer to a
  \<^verbatim>\<open>LocalObjectReference\<close>, which holds a name.
\<close>

record cephFSVolumeSource =
  Monitors :: "string list"
  CephFS_Path :: string
  SecretRef :: "string option"
  CephFS_User :: string

text \<open>
  \<^verbatim>\<open>v1.PersistentVolume\<close>. \<open>CephFS\<close> is the pointer
  \<^verbatim>\<open>Spec.PersistentVolumeSource.CephFS\<close>: \<open>None\<close> is nil. A quantity is an opaque
  number whose zero value is 0.
\<close>

record persistentVolume =
  PV_Name :: string
  Annotations :: "string \<rightharpoonup> string"
  ReclaimPolicy :: string
  AccessModes :: "string list"
  Capacity :: "string \<rightharpoonup> int"
  CephFS :: "cephFSVolumeSource option"

text \<open>
  \<^verbatim>\<open>v1.PersistentVolumeClaim\<close>: \<open>Selector\<close> is the pointer \<^verbatim>\<open>Spec.Selector\<close>,
  \<open>Requests\<close> the map \<^verbatim>\<open>Spec.Resources.Requests\<close>.
\<close>

record persistentVolumeClaim =
  PVC_Namespace :: string
  Selector :: "(string \<times> string) list option"
  Requests :: "string \<rightharpoonup> int"

text \<open>\<^verbatim>\<open>controller.VolumeOptions\<close>; \<open>PVC\<close> is a pointer, \<open>Parameters\<close> is ranged over.\<close>

record volumeOptions =
  PersistentVolumeReclaimPolicy :: string
  PVName :: string
  PVC :: "persistentVolumeClaim option"
  Parameters :: "(string \<times> string) list"

text \<open>
  \<^verbatim>\<open>cephFSProvisioner\<close> (lines 56-62). \<open>client\<close> is an interface value: \<open>None\<close> is
  nil, \<open>Some Clientset\<close> a client whose calls act on the cluster state below.
\<close>

datatype clientset = Clientset

record cephFSProvisioner =
  client :: "clientset option"
  identity :: string

subsection \<open>Errors and outcomes\<close>

datatype apiError = Unreachable | NotFound | AlreadyExists

text \<open>One constructor for each error value the source builds or passes on.\<close>

datatype error =
    SelectorNotSupported
  | InvalidOption string
  | MissingAdminSecretName
  | FailedToGetAdminSecret string string error
  | MissingMonitors
  | CannotGetKubeClient
  | ApiError apiError
  | NoSecretFound
  | CmdError string
  | InvalidProvisionerOutput
  | FailedToCreateSecret
  | IdentityAnnotationNotFound
  | IgnoredError string
  | ShareAnnotationNotFound
  | NoClassAnnotation

datatype panic = NilDereference | SliceBoundsOutOfRange

datatype 'a result = Ok 'a | Err error | Panic panic

text \<open>
  The scheduler tells the ignorable outcome from a failure by the dynamic type of the
  error, \<^verbatim>\<open>*controller.IgnoredError\<close>.
\<close>

fun isIgnoredError :: "error \<Rightarrow> bool" where
  "isIgnoredError (IgnoredError msg) = True"
| "isIgnoredError e = False"

subsection \<open>The environment\<close>

text \<open>
  \<^verbatim>\<open>exec.Command(name, args...)\<close> with its \<^verbatim>\<open>Env\<close>: \<open>Cmd_Args\<close> are the
  arguments after the program's name.
\<close>

record cmd =
  Cmd_Path :: string
  Cmd_Args :: "string list"
  Cmd_Env :: "string list"

text \<open>
  What lies outside the process. The API server holds secrets by (namespace, name) and
  storage classes by name, and may be unreachable. \<open>runAgent\<close> is the behaviour of
  \<^verbatim>\<open>cmd.CombinedOutput()\<close>: the combined output and the error (\<open>None\<close> is nil, that
  is exit status 0). \<open>spawned\<close> records the subprocesses started so far.
\<close>

record world =
  apiReachable :: bool
  secretStore :: "string \<times> string \<rightharpoonup> secret"
  classStore :: "string \<rightharpoonup> storageClass"
  runAgent :: "cmd \<Rightarrow> string \<times> string option"
  spawned :: "cmd list"

text \<open>
  Two functions of Go's standard library are parameters of the model:
  \<^verbatim>\<open>strings.ToLower\<close>, and \<^verbatim>\<open>json.Unmarshal\<close> through the address of \<^verbatim>\<open>res\<close>,
  which points to a zero \<^verbatim>\<open>provisionOutput\<close>. \<open>Unmarshal out\<close> is what \<^verbatim>\<open>res\<close> points
  to after the call: \<open>Some\<close> of the record the call leaves behind, or \<open>None\<close> when
  the call sets the pointer itself to nil (the JSON literal \<^verbatim>\<open>null\<close>). Line 103 drops
  the error of the call.
\<close>

record golib =
  ToLower :: "string \<Rightarrow> string"
  Unmarshal :: "string \<Rightarrow> provisionOutput option"

text \<open>\<^verbatim>\<open>Secrets(namespace).Get(name)\<close>, \<^verbatim>\<open>Secrets(namespace).Create(secret)\<close> and
  \<^verbatim>\<open>StorageClasses().Get(name)\<close> of the API client.\<close>

definition secretsGet :: "world \<Rightarrow> string \<Rightarrow> string \<Rightarrow> apiError + secret" where
  "secretsGet w namespace name =
     (if \<not> apiReachable w then Inl Unreachable
      else case secretStore w (namespace, name) of
             None \<Rightarrow> Inl NotFound
           | Some s \<Rightarrow> Inr s)"

definition secretsCreate :: "world \<Rightarrow> string \<Rightarrow> secret \<Rightarrow> apiError + world" where
  "secretsCreate w namespace s =
     (if \<not> apiReachable w then Inl Unreachable
      else case secretStore w (namespace, Secret_Name s) of
             Some old \<Rightarrow> Inl AlreadyExists
           | None \<Rightarrow> Inr (w\<lparr>secretStore := (secretStore w)((namespace, Secret_Name s) \<mapsto> s)\<rparr>))"

definition storageClassesGet :: "world \<Rightarrow> string \<Rightarrow> apiError + storageClass" where
  "storageClassesGet w name =
     (if \<not> apiReachable w then Inl Unreachable
      else case classStore w name of
             None \<Rightarrow> Inl NotFound
           | Some c \<Rightarrow> Inr c)"

subsection \<open>String functions of the standard library\<close>

text \<open>
  \<^verbatim>\<open>strings.Split\<close>, \<^verbatim>\<open>strings.Join\<close> and \<^verbatim>\<open>strings.Index\<close>, for a separator of
  one byte (every call of the source passes \<^verbatim>\<open>","\<close> or \<^verbatim>\<open>"/"\<close>). \<open>Split\<close> never
  returns the empty list: an input without separator is returned as the only piece.
  \<open>Index\<close> is \<open>-1\<close> when the byte does not occur.
\<close>

fun Split :: "string \<Rightarrow> char \<Rightarrow> string list" where
  "Split [] sep = [[]]"
| "Split (c # cs) sep =
     (if c = sep then [] # Split cs sep
      else case Split cs sep of
             [] \<Rightarrow> [[c]]
           | piece # pieces \<Rightarrow> (c # piece) # pieces)"

fun Join :: "string list \<Rightarrow> string \<Rightarrow> string" where
  "Join [] sep = []"
| "Join [x] sep = x"
| "Join (x # y # ys) sep = x @ sep @ Join (y # ys) sep"

fun Index :: "string \<Rightarrow> char \<Rightarrow> int" where
  "Index [] c = - 1"
| "Index (x # xs) c =
     (if x = c then 0
      else if Index xs c < 0 then - 1
      else Index xs c + 1)"

text \<open>The slice expression \<^verbatim>\<open>s[i:]\<close>: it panics unless \<open>0 \<le> i \<le> len(s)\<close>.\<close>

definition sliceFrom :: "string \<Rightarrow> int \<Rightarrow> string option" where
  "sliceFrom s i = (if 0 \<le> i \<and> i \<le> int (length s) then Some (drop (nat i) s) else None)"

subsection \<open>parsePVSecret (lines 252-266)\<close>

text \<open>
  The result is Go's pair (value, error). The range over \<^verbatim>\<open>secrets.Data\<close> returns at
  its first entry.
\<close>

definition parsePVSecret ::
  "cephFSProvisioner \<Rightarrow> world \<Rightarrow> string \<Rightarrow> string \<Rightarrow> string \<times> error option" where
  "parsePVSecret p w namespace secretName =
     (case client p of
        None \<Rightarrow> ('''', Some CannotGetKubeClient)
      | Some c \<Rightarrow>
          (case secretsGet w namespace secretName of
             Inl err \<Rightarrow> ('''', Some (ApiError err))
           | Inr secrets \<Rightarrow>
               (case Secret_Data secrets of
                  (key, data) # rest \<Rightarrow> (data, None)
                | [] \<Rightarrow> ('''', Some NoSecretFound))))"

subsection \<open>parseParameters (lines 209-250)\<close>

text \<open>The local variables the loop of lines 220-238 assigns.\<close>

record locals =
  mon :: "string list"
  cluster :: string
  adminID :: string
  adminSecretName :: string
  adminSecretNamespace :: string

text \<open>
  The loop over the parameters, in the order of the range statement. The inner loop of
  lines 226-228 appends the pieces one by one. The default branch returns from the
  function.
\<close>

fun rangeParameters :: "golib \<Rightarrow> (string \<times> string) list \<Rightarrow> locals \<Rightarrow> error + locals" where
  "rangeParameters L [] s = Inr s"
| "rangeParameters L ((k, v) # kvs) s =
     (if ToLower L k = ''cluster'' then rangeParameters L kvs (s\<lparr>cluster := v\<rparr>)
      else if ToLower L k = ''monitors'' then
        rangeParameters L kvs (s\<lparr>mon := foldl (\<lambda>acc m. acc @ [m]) (mon s) (Split v CHR '','')\<rparr>)
      else if ToLower L k = ''adminid'' then rangeParameters L kvs (s\<lparr>adminID := v\<rparr>)
      else if ToLower L k = ''adminsecretname'' then
        rangeParameters L kvs (s\<lparr>adminSecretName := v\<rparr>)
      else if ToLower L k = ''adminsecretnamespace'' then
        rangeParameters L kvs (s\<lparr>adminSecretNamespace := v\<rparr>)
      else Inl (InvalidOption k))"

text \<open>The values of lines 210-218 before the loop.\<close>

definition initialLocals :: locals where
  "initialLocals =
     \<lparr>mon = [], cluster = ''ceph'', adminID = ''admin'', adminSecretName = '''',
      adminSecretNamespace = ''default''\<rparr>"

text \<open>
  The result is Go's tuple (cluster, adminID, adminSecret, mon, err); \<open>[]\<close> is the nil
  slice.
\<close>

definition parseParameters ::
  "golib \<Rightarrow> cephFSProvisioner \<Rightarrow> world \<Rightarrow> (string \<times> string) list \<Rightarrow>
     string \<times> string \<times> string \<times> string list \<times> error option" where
  "parseParameters L p w parameters =
     (case rangeParameters L parameters initialLocals of
        Inl err \<Rightarrow> ('''', '''', '''', [], Some err)
      | Inr s \<Rightarrow>
          if adminSecretName s = '''' then ('''', '''', '''', [], Some MissingAdminSecretName)
          else
            (case parsePVSecret p w (adminSecretNamespace s) (adminSecretName s) of
               (adminSecret, Some err) \<Rightarrow>
                 ('''', '''', '''', [],
                  Some (FailedToGetAdminSecret (adminSecretNamespace s) (adminSecretName s) err))
             | (adminSecret, None) \<Rightarrow>
                 if length (mon s) < 1 then ('''', '''', '''', [], Some MissingMonitors)
                 else (cluster s, adminID s, adminSecret, mon s, None)))"

subsection \<open>getClassForVolume (lines 268-279)\<close>

text \<open>Line 274 calls a method of \<open>client\<close> without a nil check.\<close>

definition getClassForVolume ::
  "cephFSProvisioner \<Rightarrow> world \<Rightarrow> persistentVolume \<Rightarrow> storageClass result" where
  "getClassForVolume p w pv =
     (case Annotations pv storageClassAnn of
        None \<Rightarrow> Err NoClassAnnotation
      | Some className \<Rightarrow>
          (case client p of
             None \<Rightarrow> Panic NilDereference
           | Some c \<Rightarrow>
               (case storageClassesGet w className of
                  Inl err \<Rightarrow> Err (ApiError err)
                | Inr class \<Rightarrow> Ok class)))"

subsection \<open>Provision (lines 74-165)\<close>

text \<open>
  The subprocess of lines 88-94 and 192-198: \<^verbatim>\<open>exec.Command(provisionCmd, args...)\<close>
  with the four variables of its environment.
\<close>

definition agentCmd ::
  "string list \<Rightarrow> string \<Rightarrow> string list \<Rightarrow> string \<Rightarrow> string \<Rightarrow> cmd" where
  "agentCmd args cl mons adminId adminSecret =
     \<lparr>Cmd_Path = provisionCmd,
      Cmd_Args = args,
      Cmd_Env =
        [''CEPH_CLUSTER_NAME='' @ cl,
         ''CEPH_MON='' @ Join mons '','',
         ''CEPH_AUTH_ID='' @ adminId,
         ''CEPH_AUTH_KEY='' @ adminSecret]\<rparr>"

text \<open>The secret literal of lines 110-119.\<close>

definition userSecret :: "string \<Rightarrow> string \<Rightarrow> provisionOutput \<Rightarrow> secret" where
  "userSecret nameSpace secretName res =
     \<lparr>Secret_Namespace = nameSpace,
      Secret_Name = secretName,
      Secret_Data = [(''key'', Secret res)],
      Secret_Type = ''Opaque''\<rparr>"

text \<open>
  The volume literal of lines 131-160, given the value \<open>path\<close> of its slice expression
  (line 152). A key missing from \<open>Requests\<close> reads as the zero quantity.
\<close>

definition newVolume ::
  "cephFSProvisioner \<Rightarrow> volumeOptions \<Rightarrow> persistentVolumeClaim \<Rightarrow> string \<Rightarrow> string \<Rightarrow>
     string list \<Rightarrow> string \<Rightarrow> string \<Rightarrow> persistentVolume" where
  "newVolume p options pvc share user mons secretName path =
     \<lparr>PV_Name = PVName options,
      Annotations = [provisionerIDAnn \<mapsto> identity p, cephShareAnn \<mapsto> share],
      ReclaimPolicy = PersistentVolumeReclaimPolicy options,
      AccessModes = [''ReadWriteOnce'', ''ReadOnlyMany'', ''ReadWriteMany''],
      Capacity = [''storage'' \<mapsto> (case Requests pvc ''storage'' of None \<Rightarrow> 0 | Some q \<Rightarrow> q)],
      CephFS =
        Some \<lparr>Monitors = mons,
              CephFS_Path = path,
              SecretRef = Some secretName,
              CephFS_User = user\<rparr>\<rparr>"

text \<open>
  \<open>uuid1\<close> and \<open>uuid2\<close> are what the two calls of \<^verbatim>\<open>uuid.NewUUID()\<close> (lines 83 and 85)
  return. The result is the returned pointer and error, with the state of the world after
  the call. Line 104 reads the fields of \<^verbatim>\<open>res\<close> through the pointer. The volume literal
  is evaluated after the secret is created; its slice expression is the one place of the
  literal that can panic.
\<close>

definition Provision ::
  "golib \<Rightarrow> cephFSProvisioner \<Rightarrow> world \<Rightarrow> volumeOptions \<Rightarrow> string \<Rightarrow> string \<Rightarrow>
     persistentVolume result \<times> world" where
  "Provision L p w options uuid1 uuid2 =
     (case PVC options of
        None \<Rightarrow> (Panic NilDereference, w)
      | Some pvc \<Rightarrow>
          if Selector pvc \<noteq> None then (Err SelectorNotSupported, w)
          else
            (case parseParameters L p w (Parameters options) of
               (cl, adminId, adminSecret, mons, Some err) \<Rightarrow> (Err err, w)
             | (cl, adminId, adminSecret, mons, None) \<Rightarrow>
                 (let share = ''kubernetes-dynamic-pvc-'' @ uuid1;
                      user = ''kubernetes-dynamic-user-'' @ uuid2;
                      c = agentCmd [''-n'', share, ''-u'', user] cl mons adminId adminSecret;
                      w1 = w\<lparr>spawned := spawned w @ [c]\<rparr>
                  in case runAgent w c of
                       (output, Some cmdErr) \<Rightarrow> (Err (CmdError cmdErr), w1)
                     | (output, None) \<Rightarrow>
                         (case Unmarshal L output of
                            None \<Rightarrow> (Panic NilDereference, w1)
                          | Some res \<Rightarrow>
                              if User res = '''' \<or> Secret res = '''' \<or> Path res = ''''
                              then (Err InvalidProvisionerOutput, w1)
                              else
                                (let nameSpace = PVC_Namespace pvc;
                                     secretName = ''ceph-'' @ user @ ''-secret''
                                 in case client p of
                                      None \<Rightarrow> (Panic NilDereference, w1)
                                    | Some k \<Rightarrow>
                                        (case secretsCreate w1 nameSpace
                                                (userSecret nameSpace secretName res) of
                                           Inl err \<Rightarrow> (Err FailedToCreateSecret, w1)
                                         | Inr w2 \<Rightarrow>
                                             (case sliceFrom (Path res)
                                                     (Index (Path res) CHR ''/'') of
                                                None \<Rightarrow> (Panic SliceBoundsOutOfRange, w2)
                                              | Some path \<Rightarrow>
                                                  (Ok (newVolume p options pvc share user mons
                                                         secretName path),
                                                   w2))))))))"

subsection \<open>Delete (lines 169-207)\<close>

text \<open>
  The result is the returned error (\<open>Ok ()\<close> is nil) with the state of the world after
  the call. Line 190 reads \<^verbatim>\<open>CephFS.User\<close> through the pointer without a nil check.
\<close>

definition Delete ::
  "golib \<Rightarrow> cephFSProvisioner \<Rightarrow> world \<Rightarrow> persistentVolume \<Rightarrow> unit result \<times> world" where
  "Delete L p w volume =
     (case Annotations volume provisionerIDAnn of
        None \<Rightarrow> (Err IdentityAnnotationNotFound, w)
      | Some ann \<Rightarrow>
          if ann \<noteq> identity p
          then (Err (IgnoredError ''identity annotation on PV does not match ours''), w)
          else
            (case Annotations volume cephShareAnn of
               None \<Rightarrow> (Err ShareAnnotationNotFound, w)
             | Some share \<Rightarrow>
                 (case getClassForVolume p w volume of
                    Panic x \<Rightarrow> (Panic x, w)
                  | Err err \<Rightarrow> (Err err, w)
                  | Ok class \<Rightarrow>
                      (case parseParameters L p w (Class_Parameters class) of
                         (cl, adminId, adminSecret, mons, Some err) \<Rightarrow> (Err err, w)
                       | (cl, adminId, adminSecret, mons, None) \<Rightarrow>
                           (case CephFS volume of
                              None \<Rightarrow> (Panic NilDereference, w)
                            | Some src \<Rightarrow>
                                (let user = CephFS_User src;
                                     c = agentCmd [''-r'', ''-n'', share, ''-u'', user]
                                           cl mons adminId adminSecret;
                                     w1 = w\<lparr>spawned := spawned w @ [c]\<rparr>
                                 in case runAgent w c of
                                      (output, Some cmdErr) \<Rightarrow> (Err (CmdError cmdErr), w1)
                                    | (output, None) \<Rightarrow> (Ok (), w1)))))))"

subsection \<open>A concrete environment\<close>

text \<open>
  The inputs at which the theorems below are instantiated: a library whose \<open>ToLower\<close>
  lowers the ASCII letters and whose \<open>Unmarshal\<close> decodes the agent outputs used here
  as \<^verbatim>\<open>encoding/json\<close> does (four records, the literal \<^verbatim>\<open>null\<close>, and text that is
  no JSON and leaves the zero record), a provisioner with a client, and a cluster that
  holds the admin secret \<^verbatim>\<open>default/ceph-admin\<close> and the storage class \<^verbatim>\<open>cephfs\<close>.
\<close>

definition lowerChar :: "char \<Rightarrow> char" where
  "lowerChar c =
     (case map_of (zip ''ABCDEFGHIJKLMNOPQRSTUVWXYZ'' ''abcdefghijklmnopqrstuvwxyz'') c of
        None \<Rightarrow> c
      | Some d \<Rightarrow> d)"

definition asciiToLower :: "string \<Rightarrow> string" where
  "asciiToLower s = map lowerChar s"

definition createOutput :: string where
  \<open>createOutput = ''{"path":"/volumes/vol1","user":"u1","auth":"AQA=="}''\<close>

definition createOutputNoSlash :: string where
  \<open>createOutputNoSlash = ''{"path":"vol1","user":"u1","auth":"AQA=="}''\<close>

definition createOutputPrefixed :: string where
  \<open>createOutputPrefixed = ''{"path":"10.0.0.1:6789:/volumes/vol1","user":"u1","auth":"AQA=="}''\<close>

definition createOutputNoAuth :: string where
  \<open>createOutputNoAuth = ''{"path":"/volumes/vol1","user":"u1"}''\<close>

definition sampleUnmarshal :: "string \<Rightarrow> provisionOutput option" where
  "sampleUnmarshal out =
     (if out = createOutput
      then Some \<lparr>Path = ''/volumes/vol1'', User = ''u1'', Secret = ''AQA==''\<rparr>
      else if out = createOutputPrefixed
      then Some \<lparr>Path = ''10.0.0.1:6789:/volumes/vol1'', User = ''u1'', Secret = ''AQA==''\<rparr>
      else if out = createOutputNoSlash
      then Some \<lparr>Path = ''vol1'', User = ''u1'', Secret = ''AQA==''\<rparr>
      else if out = createOutputNoAuth
      then Some \<lparr>Path = ''/volumes/vol1'', User = ''u1'', Secret = ''''\<rparr>
      else if out = ''null'' then None
      else Some \<lparr>Path = '''', User = '''', Secret = ''''\<rparr>)"

definition sampleLib :: golib where
  "sampleLib = \<lparr>ToLower = asciiToLower, Unmarshal = sampleUnmarshal\<rparr>"

definition sampleProvisioner :: cephFSProvisioner where
  "sampleProvisioner = \<lparr>client = Some Clientset, identity = ''uid-A''\<rparr>"

definition otherProvisioner :: cephFSProvisioner where
  "otherProvisioner = \<lparr>client = Some Clientset, identity = ''uid-B''\<rparr>"

definition sampleParameters :: "(string \<times> string) list" where
  "sampleParameters =
     [(''monitors'', ''10.0.0.1:6789,10.0.0.2:6789''), (''adminSecretName'', ''ceph-admin'')]"

definition adminSecretObject :: secret where
  "adminSecretObject =
     \<lparr>Secret_Namespace = ''default'', Secret_Name = ''ceph-admin'',
      Secret_Data = [(''key'', ''AQDadmin=='')], Secret_Type = ''Opaque''\<rparr>"

definition sampleWorld :: "(cmd \<Rightarrow> string \<times> string option) \<Rightarrow> world" where
  "sampleWorld agent =
     \<lparr>apiReachable = True,
      secretStore = [(''default'', ''ceph-admin'') \<mapsto> adminSecretObject],
      classStore = [''cephfs'' \<mapsto> \<lparr>Class_Parameters = sampleParameters\<rparr>],
      runAgent = agent,
      spawned = []\<rparr>"

text \<open>Six agents: one that succeeds, one whose path has the monitor address before
  the first slash, one that exits with status 1, one whose record lacks \<^verbatim>\<open>auth\<close>, one
  whose path has no slash, and one that prints \<^verbatim>\<open>null\<close>.\<close>

definition agentOk :: "cmd \<Rightarrow> string \<times> string option" where
  "agentOk c = (createOutput, None)"

definition agentPrefixed :: "cmd \<Rightarrow> string \<times> string option" where
  "agentPrefixed c = (createOutputPrefixed, None)"

definition agentNull :: "cmd \<Rightarrow> string \<times> string option" where
  "agentNull c = (''null'', None)"

definition agentExit1 :: "cmd \<Rightarrow> string \<times> string option" where
  "agentExit1 c = (''Error EPERM'', Some ''exit status 1'')"

definition agentNoAuth :: "cmd \<Rightarrow> string \<times> string option" where
  "agentNoAuth c = (createOutputNoAuth, None)"

definition agentNoSlash :: "cmd \<Rightarrow> string \<times> string option" where
  "agentNoSlash c = (createOutputNoSlash, None)"

definition sampleOptions :: volumeOptions where
  "sampleOptions =
     \<lparr>PersistentVolumeReclaimPolicy = ''Delete'',
      PVName = ''pvc-1'',
      PVC = Some \<lparr>PVC_Namespace = ''ns1'', Selector = None, Requests = [''storage'' \<mapsto> 1]\<rparr>,
      Parameters = sampleParameters\<rparr>"

text \<open>A volume as \<open>sampleProvisioner\<close> stamps it, the same volume without a CephFS
  source, and a volume without annotations.\<close>

definition sampleVolume :: persistentVolume where
  "sampleVolume =
     \<lparr>PV_Name = ''pvc-1'',
      Annotations =
        [provisionerIDAnn \<mapsto> ''uid-A'', cephShareAnn \<mapsto> ''kubernetes-dynamic-pvc-s1'',
         storageClassAnn \<mapsto> ''cephfs''],
      ReclaimPolicy = ''Delete'',
      AccessModes = [''ReadWriteOnce'', ''ReadOnlyMany'', ''ReadWriteMany''],
      Capacity = [''storage'' \<mapsto> 1],
      CephFS =
        Some \<lparr>Monitors = [''10.0.0.1:6789'', ''10.0.0.2:6789''],
              CephFS_Path = ''/volumes/vol1'',
              SecretRef = Some ''ceph-kubernetes-dynamic-user-u1-secret'',
              CephFS_User = ''kubernetes-dynamic-user-u1''\<rparr>\<rparr>"

definition volumeWithoutSource :: persistentVolume where
  "volumeWithoutSource = sampleVolume\<lparr>CephFS := None\<rparr>"

definition unstampedVolume :: persistentVolume where
  "unstampedVolume = sampleVolume\<lparr>Annotations := Map.empty\<rparr>"

text \<open>The subprocesses the concrete calls spawn, and the stamped volume without its
  share annotation.\<close>

definition sampleCreateCmd :: cmd where
  "sampleCreateCmd =
     \<lparr>Cmd_Path = ''/usr/local/bin/cephfs_provisioner'',
      Cmd_Args = [''-n'', ''kubernetes-dynamic-pvc-uuid-1'', ''-u'', ''kubernetes-dynamic-user-uuid-2''],
      Cmd_Env = [''CEPH_CLUSTER_NAME=ceph'', ''CEPH_MON=10.0.0.1:6789,10.0.0.2:6789'',
                 ''CEPH_AUTH_ID=admin'', ''CEPH_AUTH_KEY=AQDadmin=='']\<rparr>"

definition sampleDestroyCmd :: cmd where
  "sampleDestroyCmd =
     \<lparr>Cmd_Path = ''/usr/local/bin/cephfs_provisioner'',
      Cmd_Args = [''-r'', ''-n'', ''kubernetes-dynamic-pvc-s1'', ''-u'', ''kubernetes-dynamic-user-u1''],
      Cmd_Env = [''CEPH_CLUSTER_NAME=ceph'', ''CEPH_MON=10.0.0.1:6789,10.0.0.2:6789'',
                 ''CEPH_AUTH_ID=admin'', ''CEPH_AUTH_KEY=AQDadmin=='']\<rparr>"

definition volumeWithoutShare :: persistentVolume where
  "volumeWithoutShare = sampleVolume\<lparr>Annotations := [provisionerIDAnn \<mapsto> ''uid-A'']\<rparr>"

section \<open>Properties\<close>

subsection \<open>Library functions and the parameter loop\<close>

lemma Split_not_Nil: "Split s sep \<noteq> []"
  by (induction s) (auto split: list.splits)

lemma foldl_snoc: "foldl (\<lambda>acc m. acc @ [m]) xs ys = xs @ ys"
  by (induction ys arbitrary: xs) auto

text \<open>A key that no case of the switch matches ends the loop with \<open>InvalidOption\<close>,
  whatever the order of the range and whatever was assigned before.\<close>

lemma rangeParameters_unrecognized:
  assumes "\<exists>k \<in> fst ` set kvs. ToLower L k \<notin>
             {''cluster'', ''monitors'', ''adminid'', ''adminsecretname'', ''adminsecretnamespace''}"
  shows "\<exists>k \<in> fst ` set kvs.
           ToLower L k \<notin>
             {''cluster'', ''monitors'', ''adminid'', ''adminsecretname'', ''adminsecretnamespace''}
           \<and> rangeParameters L kvs s = Inl (InvalidOption k)"
  using assms
proof (induction kvs arbitrary: s)
  case Nil
  then show ?case by simp
next
  case (Cons kv kvs)
  obtain k v where kv: "kv = (k, v)" by (cases kv)
  show ?case
  proof (cases "ToLower L k \<in>
      {''cluster'', ''monitors'', ''adminid'', ''adminsecretname'', ''adminsecretnamespace''}")
    case True
    with Cons.prems kv have "\<exists>k \<in> fst ` set kvs. ToLower L k \<notin>
        {''cluster'', ''monitors'', ''adminid'', ''adminsecretname'', ''adminsecretnamespace''}"
      by auto
    from Cons.IH[OF this] True kv show ?thesis
      by (auto simp del: insert_iff)
  next
    case False
    then show ?thesis using kv by simp
  qed
qed


lemma rangeParameters_error:
  "rangeParameters L kvs s = Inl e \<Longrightarrow> \<exists>k. e = InvalidOption k"
proof (induction kvs arbitrary: s)
  case Nil
  then show ?case by simp
next
  case (Cons kv kvs)
  obtain k v where kv: "kv = (k, v)" by (cases kv)
  from Cons.prems kv show ?case
    by (auto split: if_splits dest: Cons.IH)
qed

text \<open>
  \<open>Index\<close> is \<open>-1\<close> or a position of the string, it is negative exactly when the byte
  does not occur, and the slice from it is the rest of the string from the first
  occurrence on.
\<close>

lemma Index_range: "Index s c = - 1 \<or> (0 \<le> Index s c \<and> Index s c < int (length s))"
  by (induction s) auto

lemma Index_absent: "Index s c < 0 \<longleftrightarrow> c \<notin> set s"
  by (induction s) (use Index_range in auto)

lemma Index_present: "c \<in> set s \<Longrightarrow> drop (nat (Index s c)) s = dropWhile (\<lambda>x. x \<noteq> c) s"
proof (induction s)
  case Nil
  then show ?case by simp
next
  case (Cons x xs)
  show ?case
  proof (cases "x = c")
    case True
    then show ?thesis by simp
  next
    case False
    with Cons.prems have in_xs: "c \<in> set xs" by simp
    then have "0 \<le> Index xs c" using Index_absent[of xs c] by simp
    then have "nat (Index xs c + 1) = Suc (nat (Index xs c))" by simp
    with False in_xs Cons.IH show ?thesis
      using Index_absent[of xs c] by simp
  qed
qed

lemma sliceFrom_Index:
  "sliceFrom s (Index s c) = (if c \<in> set s then Some (dropWhile (\<lambda>x. x \<noteq> c) s) else None)"
proof (cases "c \<in> set s")
  case True
  then have "0 \<le> Index s c" using Index_absent[of s c] by simp
  moreover have "Index s c \<le> int (length s)" using Index_range[of s c] by auto
  ultimately show ?thesis using True by (simp add: sliceFrom_def Index_present)
next
  case False
  then have "Index s c < 0" by (simp add: Index_absent)
  with False show ?thesis by (simp add: sliceFrom_def)
qed

text \<open>The errors \<open>parseParameters\<close> and \<open>getClassForVolume\<close> can return; parameters
  resolve only through a client.\<close>

lemma parseParameters_error:
  assumes "parseParameters L p w parameters = (cl, adminId, adminSecret, mons, Some e)"
  shows "(\<exists>k. e = InvalidOption k) \<or> e = MissingAdminSecretName
         \<or> (\<exists>ns n e'. e = FailedToGetAdminSecret ns n e') \<or> e = MissingMonitors"
  using assms
  by (auto simp: parseParameters_def split: sum.splits if_splits prod.splits option.splits
           dest: rangeParameters_error)

lemma parseParameters_client:
  "parseParameters L p w parameters = (cl, adminId, adminSecret, mons, None) \<Longrightarrow> client p \<noteq> None"
  by (auto simp: parseParameters_def parsePVSecret_def
           split: sum.splits if_splits prod.splits option.splits)

lemma getClassForVolume_error:
  "getClassForVolume p w v = Err e \<Longrightarrow> e = NoClassAnnotation \<or> (\<exists>a. e = ApiError a)"
  by (auto simp: getClassForVolume_def split: option.splits sum.splits)

text \<open>The concrete bundle resolves, whatever the agent; the concrete volume has a class.\<close>

lemma sample_parseParameters:
  "parseParameters sampleLib sampleProvisioner (sampleWorld agent) sampleParameters
      = (''ceph'', ''admin'', ''AQDadmin=='', [''10.0.0.1:6789'', ''10.0.0.2:6789''], None)"
  by code_simp

lemmas sample_parse =
  sample_parseParameters[unfolded sampleLib_def sampleProvisioner_def sampleWorld_def]

lemmas sample_defs = sampleLib_def sampleProvisioner_def sampleWorld_def sampleOptions_def
  sampleUnmarshal_def createOutput_def createOutputNoSlash_def createOutputNoAuth_def
  createOutputPrefixed_def
  sampleCreateCmd_def sampleDestroyCmd_def provisionCmd_def agentCmd_def userSecret_def
  newVolume_def

lemma sample_getClass:
  "getClassForVolume sampleProvisioner (sampleWorld agent) sampleVolume
     = Ok \<lparr>Class_Parameters = sampleParameters\<rparr>"
  by (simp add: getClassForVolume_def sampleVolume_def storageClassAnn_def
        provisionerIDAnn_def cephShareAnn_def sampleProvisioner_def storageClassesGet_def
        sampleWorld_def)

lemma sample_annotations:
  "Annotations sampleVolume provisionerIDAnn = Some ''uid-A''"
  "Annotations sampleVolume cephShareAnn = Some ''kubernetes-dynamic-pvc-s1''"
  "Annotations unstampedVolume provisionerIDAnn = None"
  "Annotations volumeWithoutShare provisionerIDAnn = Some ''uid-A''"
  "Annotations volumeWithoutShare cephShareAnn = None"
  by (simp_all add: sampleVolume_def unstampedVolume_def volumeWithoutShare_def
        storageClassAnn_def provisionerIDAnn_def cephShareAnn_def)

subsection \<open>Parameter resolution\<close>




text \<open>
  C4: a bundle with a key outside the five cases of the switch (compared after
  \<open>ToLower\<close>) makes \<open>parseParameters\<close> return \<open>InvalidOption\<close> for such a key, and every
  value of the returned tuple is the zero value: nothing that a recognized key of the
  bundle assigned is returned.
\<close>

theorem unrecognized_key_fails:
  assumes "\<exists>k \<in> fst ` set parameters. ToLower L k \<notin>
             {''cluster'', ''monitors'', ''adminid'', ''adminsecretname'', ''adminsecretnamespace''}"
  shows "\<exists>k \<in> fst ` set parameters.
           ToLower L k \<notin>
             {''cluster'', ''monitors'', ''adminid'', ''adminsecretname'', ''adminsecretnamespace''}
           \<and> parseParameters L p w parameters = ('''', '''', '''', [], Some (InvalidOption k))"
proof -
  from rangeParameters_unrecognized[OF assms, of initialLocals]
  obtain k where "k \<in> fst ` set parameters"
    and "ToLower L k \<notin>
          {''cluster'', ''monitors'', ''adminid'', ''adminsecretname'', ''adminsecretnamespace''}"
    and "rangeParameters L parameters initialLocals = Inl (InvalidOption k)"
    by blast
  then show ?thesis
    unfolding parseParameters_def by (intro bexI[of _ k]) simp_all
qed

theorem unrecognized_key_fails_witness:
  "(\<exists>k \<in> fst ` set (sampleParameters @ [(''pool'', ''data'')]).
       ToLower sampleLib k \<notin>
         {''cluster'', ''monitors'', ''adminid'', ''adminsecretname'', ''adminsecretnamespace''})
   \<and> parseParameters sampleLib sampleProvisioner (sampleWorld agentOk)
        (sampleParameters @ [(''pool'', ''data'')])
      = ('''', '''', '''', [], Some (InvalidOption ''pool''))"
proof -
  have h: "\<exists>k \<in> fst ` set (sampleParameters @ [(''pool'', ''data'')]).
       ToLower sampleLib k \<notin>
         {''cluster'', ''monitors'', ''adminid'', ''adminsecretname'', ''adminsecretnamespace''}"
    by code_simp
  have e: "parseParameters sampleLib sampleProvisioner (sampleWorld agentOk)
        (sampleParameters @ [(''pool'', ''data'')])
      = ('''', '''', '''', [], Some (InvalidOption ''pool''))"
    by code_simp
  from unrecognized_key_fails[OF h, of sampleProvisioner "sampleWorld agentOk"]
  show ?thesis using h e by simp
qed

subsection \<open>Credential resolution\<close>

text \<open>
  C7: when the store can be reached (the provisioner has a client and the API server
  answers) and holds the secret with at least one entry, \<open>parsePVSecret\<close> returns the
  value of an entry of the secret's data, whatever its key. It returns an error exactly
  when the store cannot be reached (no client, line 253, or no answer), the secret does
  not exist, or its data is empty.
\<close>

theorem parsePVSecret_any_entry:
  "(client p \<noteq> None \<and> apiReachable w \<and> secretStore w (namespace, name) = Some s
      \<and> Secret_Data s \<noteq> [] \<longrightarrow>
      (\<exists>v \<in> snd ` set (Secret_Data s). parsePVSecret p w namespace name = (v, None)))
   \<and> (snd (parsePVSecret p w namespace name) \<noteq> None \<longleftrightarrow>
        (client p = None \<or> \<not> apiReachable w)
        \<or> secretStore w (namespace, name) = None
        \<or> (\<exists>s. secretStore w (namespace, name) = Some s \<and> Secret_Data s = []))"
  by (auto simp: parsePVSecret_def secretsGet_def split: option.splits list.splits)

theorem parsePVSecret_any_entry_witness:
  "client sampleProvisioner \<noteq> None \<and> apiReachable (sampleWorld agentOk)
   \<and> secretStore (sampleWorld agentOk) (''default'', ''ceph-admin'') = Some adminSecretObject
   \<and> Secret_Data adminSecretObject \<noteq> []
   \<and> parsePVSecret sampleProvisioner (sampleWorld agentOk) ''default'' ''ceph-admin''
        = (''AQDadmin=='', None)
   \<and> snd (parsePVSecret sampleProvisioner (sampleWorld agentOk) ''default'' ''other'') \<noteq> None
   \<and> secretStore (sampleWorld agentOk) (''default'', ''other'') = None"
proof -
  have h: "client sampleProvisioner \<noteq> None \<and> apiReachable (sampleWorld agentOk)
     \<and> secretStore (sampleWorld agentOk) (''default'', ''ceph-admin'') = Some adminSecretObject
     \<and> Secret_Data adminSecretObject \<noteq> []"
    by (simp add: sampleProvisioner_def sampleWorld_def adminSecretObject_def)
  have n: "secretStore (sampleWorld agentOk) (''default'', ''other'') = None"
    by (simp add: sampleWorld_def)
  have d: "snd ` set (Secret_Data adminSecretObject) = {''AQDadmin==''}"
    by (simp add: adminSecretObject_def)
  from parsePVSecret_any_entry[of sampleProvisioner "sampleWorld agentOk" "''default''"
         "''ceph-admin''" adminSecretObject, THEN conjunct1, rule_format, OF h]
       parsePVSecret_any_entry[of sampleProvisioner "sampleWorld agentOk" "''default''"
         "''other''" adminSecretObject, THEN conjunct2]
  show ?thesis using h n d by auto
qed

subsection \<open>Provision\<close>

text \<open>
  The five ways a call of \<open>Provision\<close> ends. Before the agent runs, nothing changes. When
  the agent fails or its record lacks a field, when the decoded pointer is nil, and when
  the client is nil or the secret cannot be created, the state changes by the spawned
  subprocess alone. Otherwise the secret is stored and the result depends on the slice
  expression of line 152.
\<close>

lemma Provision_cases
  [consumes 1, case_names early agent_failed no_record create_failed created]:
  assumes P: "Provision L p w options uuid1 uuid2 = (r, w')"
  obtains
    (early) "w' = w" "r = Panic NilDereference \<or> (\<exists>e. r = Err e)"
  | (agent_failed) cl adminId adminSecret mons c where
      "c = agentCmd [''-n'', ''kubernetes-dynamic-pvc-'' @ uuid1,
                     ''-u'', ''kubernetes-dynamic-user-'' @ uuid2] cl mons adminId adminSecret"
      "w' = w\<lparr>spawned := spawned w @ [c]\<rparr>"
      "snd (runAgent w c) \<noteq> None
         \<or> (\<exists>res. Unmarshal L (fst (runAgent w c)) = Some res
                \<and> (User res = '''' \<or> Secret res = '''' \<or> Path res = ''''))"
      "\<exists>e. r = Err e"
  | (no_record) cl adminId adminSecret mons c where
      "c = agentCmd [''-n'', ''kubernetes-dynamic-pvc-'' @ uuid1,
                     ''-u'', ''kubernetes-dynamic-user-'' @ uuid2] cl mons adminId adminSecret"
      "w' = w\<lparr>spawned := spawned w @ [c]\<rparr>"
      "snd (runAgent w c) = None"
      "Unmarshal L (fst (runAgent w c)) = None"
      "r = Panic NilDereference"
  | (create_failed) cl adminId adminSecret mons c res where
      "c = agentCmd [''-n'', ''kubernetes-dynamic-pvc-'' @ uuid1,
                     ''-u'', ''kubernetes-dynamic-user-'' @ uuid2] cl mons adminId adminSecret"
      "w' = w\<lparr>spawned := spawned w @ [c]\<rparr>"
      "snd (runAgent w c) = None"
      "Unmarshal L (fst (runAgent w c)) = Some res"
      "User res \<noteq> ''''" "Secret res \<noteq> ''''" "Path res \<noteq> ''''"
      "r = Panic NilDereference \<or> r = Err FailedToCreateSecret"
  | (created) pvc cl adminId adminSecret mons c res where
      "PVC options = Some pvc"
      "c = agentCmd [''-n'', ''kubernetes-dynamic-pvc-'' @ uuid1,
                     ''-u'', ''kubernetes-dynamic-user-'' @ uuid2] cl mons adminId adminSecret"
      "Unmarshal L (fst (runAgent w c)) = Some res"
      "snd (runAgent w c) = None"
      "User res \<noteq> ''''" "Secret res \<noteq> ''''" "Path res \<noteq> ''''"
      "w' = w\<lparr>spawned := spawned w @ [c],
               secretStore := (secretStore w)
                 ((PVC_Namespace pvc, ''ceph-'' @ (''kubernetes-dynamic-user-'' @ uuid2) @ ''-secret'')
                    \<mapsto> userSecret (PVC_Namespace pvc)
                         (''ceph-'' @ (''kubernetes-dynamic-user-'' @ uuid2) @ ''-secret'') res)\<rparr>"
      "r = (case sliceFrom (Path res) (Index (Path res) CHR ''/'') of
              None \<Rightarrow> Panic SliceBoundsOutOfRange
            | Some path \<Rightarrow>
                Ok (newVolume p options pvc (''kubernetes-dynamic-pvc-'' @ uuid1)
                      (''kubernetes-dynamic-user-'' @ uuid2) mons
                      (''ceph-'' @ (''kubernetes-dynamic-user-'' @ uuid2) @ ''-secret'') path))"
proof (cases "PVC options")
  case None
  with P have "w' = w" "r = Panic NilDereference" by (simp_all add: Provision_def)
  then show ?thesis using early by simp
next
  case (Some pvc)
  note pvc = Some
  show ?thesis
  proof (cases "Selector pvc")
    case (Some sel)
    with P pvc have "w' = w" "r = Err SelectorNotSupported" by (simp_all add: Provision_def)
    then show ?thesis using early by simp
  next
    case None
    note sel = None
    obtain cl adminId adminSecret mons perr where
      pp: "parseParameters L p w (Parameters options) = (cl, adminId, adminSecret, mons, perr)"
      by (cases "parseParameters L p w (Parameters options)")
    show ?thesis
    proof (cases perr)
      case (Some e)
      with P pvc sel pp have "w' = w" "r = Err e" by (simp_all add: Provision_def)
      then show ?thesis using early by simp
    next
      case None
      note perr = None
      define c where "c = agentCmd [''-n'', ''kubernetes-dynamic-pvc-'' @ uuid1,
                     ''-u'', ''kubernetes-dynamic-user-'' @ uuid2] cl mons adminId adminSecret"
      obtain out cmdErr where ra: "runAgent w c = (out, cmdErr)"
        by (cases "runAgent w c")
      note front = pvc sel pp perr c_def[symmetric]
      show ?thesis
      proof (cases cmdErr)
        case (Some e)
        with P ra have "w' = w\<lparr>spawned := spawned w @ [c]\<rparr>" "r = Err (CmdError e)"
          by (simp_all add: Provision_def front Let_def del: append.simps)
        with Some ra show ?thesis using agent_failed[OF c_def] by simp
      next
        case None
        note ok = None
        show ?thesis
        proof (cases "Unmarshal L out")
          case None
          with P ra ok have "w' = w\<lparr>spawned := spawned w @ [c]\<rparr>" "r = Panic NilDereference"
            by (simp_all add: Provision_def front Let_def del: append.simps)
          with None ra ok show ?thesis using no_record[OF c_def] by simp
        next
          case (Some res)
          note res = Some
          show ?thesis
          proof (cases "User res = '''' \<or> Secret res = '''' \<or> Path res = ''''")
            case True
            with P ra ok res have "w' = w\<lparr>spawned := spawned w @ [c]\<rparr>"
              "r = Err InvalidProvisionerOutput"
              by (simp_all add: Provision_def front Let_def del: append.simps)
            with True ra res show ?thesis using agent_failed[OF c_def] by auto
          next
            case False
            then have ne: "User res \<noteq> ''''" "Secret res \<noteq> ''''" "Path res \<noteq> ''''"
              by simp_all
            show ?thesis
            proof (cases "client p")
              case None
              with P ra ok res ne have "w' = w\<lparr>spawned := spawned w @ [c]\<rparr>"
                "r = Panic NilDereference"
                by (simp_all add: Provision_def front Let_def del: append.simps)
              with ne ra ok res show ?thesis using create_failed[OF c_def] by simp
            next
              case (Some k)
              note k = Some
              let ?name = "''ceph-'' @ (''kubernetes-dynamic-user-'' @ uuid2) @ ''-secret''"
              show ?thesis
              proof (cases "secretsCreate (w\<lparr>spawned := spawned w @ [c]\<rparr>) (PVC_Namespace pvc)
                              (userSecret (PVC_Namespace pvc) ?name res)")
                case (Inl e)
                with P ra ok res ne k have "w' = w\<lparr>spawned := spawned w @ [c]\<rparr>"
                  "r = Err FailedToCreateSecret"
                  by (simp_all add: Provision_def front Let_def del: append.simps)
                with ne ra ok res show ?thesis using create_failed[OF c_def] by simp
              next
                case (Inr w2)
                then have w2: "w2 = w\<lparr>spawned := spawned w @ [c],
                   secretStore := (secretStore w)
                     ((PVC_Namespace pvc, ?name) \<mapsto> userSecret (PVC_Namespace pvc) ?name res)\<rparr>"
                  by (auto simp: secretsCreate_def userSecret_def split: if_splits option.splits)
                from P ra ok res ne k Inr have "w' = w2"
                  "r = (case sliceFrom (Path res) (Index (Path res) CHR ''/'') of
                          None \<Rightarrow> Panic SliceBoundsOutOfRange
                        | Some path \<Rightarrow>
                            Ok (newVolume p options pvc (''kubernetes-dynamic-pvc-'' @ uuid1)
                                  (''kubernetes-dynamic-user-'' @ uuid2) mons ?name path))"
                  by (simp_all add: Provision_def front Let_def del: append.simps
                        split: option.splits)
                with w2 show ?thesis
                  using created[OF pvc c_def _ _ ne] ra ok res by simp
              qed
            qed
          qed
        qed
      qed
    qed
  qed
qed

text \<open>
  C5, in both directions. When \<open>Provision\<close> returns a volume, it has spawned one
  subprocess \<open>c\<close>, the path of the record decoded from the output of \<open>c\<close> contains a
  slash, and the volume's CephFS path is that path from its first slash on; the reported
  path \<^verbatim>\<open>/volumes/vol1\<close> gives the CephFS path \<^verbatim>\<open>/volumes/vol1\<close>. And \<open>Provision\<close> does
  return such a volume whenever the request has a claim without selector, the parameters
  resolve, the agent exits with status 0, its record has a user, a key and a path with a
  slash anywhere in it, and the secret can be created: whatever stands before the first
  slash is stripped.
\<close>

theorem export_path_from_first_slash:
  "(Provision L p w options uuid1 uuid2 = (Ok pv, w') \<longrightarrow>
      (\<exists>c res src. spawned w' = spawned w @ [c]
           \<and> Unmarshal L (fst (runAgent w c)) = Some res
           \<and> CephFS pv = Some src
           \<and> CHR ''/'' \<in> set (Path res)
           \<and> CephFS_Path src = dropWhile (\<lambda>x. x \<noteq> CHR ''/'') (Path res)
           \<and> (Path res = ''/volumes/vol1'' \<longrightarrow> CephFS_Path src = ''/volumes/vol1'')))
   \<and> (PVC options = Some pvc \<and> Selector pvc = None
       \<and> parseParameters L p w (Parameters options) = (cl, adminId, adminSecret, mons, None)
       \<and> runAgent w (agentCmd [''-n'', ''kubernetes-dynamic-pvc-'' @ uuid1,
                               ''-u'', ''kubernetes-dynamic-user-'' @ uuid2]
                       cl mons adminId adminSecret) = (out, None)
       \<and> Unmarshal L out = Some res'
       \<and> User res' \<noteq> '''' \<and> Secret res' \<noteq> '''' \<and> CHR ''/'' \<in> set (Path res')
       \<and> apiReachable w
       \<and> secretStore w (PVC_Namespace pvc,
            ''ceph-'' @ (''kubernetes-dynamic-user-'' @ uuid2) @ ''-secret'') = None \<longrightarrow>
       (\<exists>pv' src'. fst (Provision L p w options uuid1 uuid2) = Ok pv'
           \<and> CephFS pv' = Some src'
           \<and> CephFS_Path src' = dropWhile (\<lambda>x. x \<noteq> CHR ''/'') (Path res')))"
proof (intro conjI impI)
  assume "Provision L p w options uuid1 uuid2 = (Ok pv, w')"
  then show "\<exists>c res src. spawned w' = spawned w @ [c]
           \<and> Unmarshal L (fst (runAgent w c)) = Some res
           \<and> CephFS pv = Some src
           \<and> CHR ''/'' \<in> set (Path res)
           \<and> CephFS_Path src = dropWhile (\<lambda>x. x \<noteq> CHR ''/'') (Path res)
           \<and> (Path res = ''/volumes/vol1'' \<longrightarrow> CephFS_Path src = ''/volumes/vol1'')"
  proof (cases rule: Provision_cases)
    case (created pvc cl adminId adminSecret mons c res)
    then show ?thesis
      by (auto simp: sliceFrom_Index newVolume_def split: if_splits)
  qed auto
next
  assume h: "PVC options = Some pvc \<and> Selector pvc = None
       \<and> parseParameters L p w (Parameters options) = (cl, adminId, adminSecret, mons, None)
       \<and> runAgent w (agentCmd [''-n'', ''kubernetes-dynamic-pvc-'' @ uuid1,
                               ''-u'', ''kubernetes-dynamic-user-'' @ uuid2]
                       cl mons adminId adminSecret) = (out, None)
       \<and> Unmarshal L out = Some res'
       \<and> User res' \<noteq> '''' \<and> Secret res' \<noteq> '''' \<and> CHR ''/'' \<in> set (Path res')
       \<and> apiReachable w
       \<and> secretStore w (PVC_Namespace pvc,
            ''ceph-'' @ (''kubernetes-dynamic-user-'' @ uuid2) @ ''-secret'') = None"
  then have pp: "parseParameters L p w (Parameters options)
                   = (cl, adminId, adminSecret, mons, None)"
    by simp
  from parseParameters_client[OF pp] obtain k where k: "client p = Some k" by auto
  from h have path: "Path res' \<noteq> ''''" by auto
  let ?name = "''ceph-'' @ (''kubernetes-dynamic-user-'' @ uuid2) @ ''-secret''"
  from h have create: "secretsCreate
      (w\<lparr>spawned := spawned w @ [agentCmd [''-n'', ''kubernetes-dynamic-pvc-'' @ uuid1,
                               ''-u'', ''kubernetes-dynamic-user-'' @ uuid2]
                       cl mons adminId adminSecret]\<rparr>)
      (PVC_Namespace pvc) (userSecret (PVC_Namespace pvc) ?name res')
    = Inr (w\<lparr>spawned := spawned w @ [agentCmd [''-n'', ''kubernetes-dynamic-pvc-'' @ uuid1,
                               ''-u'', ''kubernetes-dynamic-user-'' @ uuid2]
                       cl mons adminId adminSecret],
             secretStore := (secretStore w)
               ((PVC_Namespace pvc, ?name) \<mapsto> userSecret (PVC_Namespace pvc) ?name res')\<rparr>)"
    by (simp add: secretsCreate_def userSecret_def del: append.simps)
  from h have slice: "sliceFrom (Path res') (Index (Path res') CHR ''/'')
                        = Some (dropWhile (\<lambda>x. x \<noteq> CHR ''/'') (Path res'))"
    by (simp add: sliceFrom_Index)
  from h path k create slice have "fst (Provision L p w options uuid1 uuid2) =
      Ok (newVolume p options pvc (''kubernetes-dynamic-pvc-'' @ uuid1)
            (''kubernetes-dynamic-user-'' @ uuid2) mons ?name
            (dropWhile (\<lambda>x. x \<noteq> CHR ''/'') (Path res')))"
    by (simp add: Provision_def Let_def del: append.simps)
  then show "\<exists>pv' src'. fst (Provision L p w options uuid1 uuid2) = Ok pv'
           \<and> CephFS pv' = Some src'
           \<and> CephFS_Path src' = dropWhile (\<lambda>x. x \<noteq> CHR ''/'') (Path res')"
    by (simp add: newVolume_def)
qed

theorem export_path_from_first_slash_witness:
  "PVC sampleOptions
     = Some \<lparr>PVC_Namespace = ''ns1'', Selector = None, Requests = [''storage'' \<mapsto> 1]\<rparr>
   \<and> parseParameters sampleLib sampleProvisioner (sampleWorld agentPrefixed)
        (Parameters sampleOptions)
       = (''ceph'', ''admin'', ''AQDadmin=='', [''10.0.0.1:6789'', ''10.0.0.2:6789''], None)
   \<and> runAgent (sampleWorld agentPrefixed)
        (agentCmd [''-n'', ''kubernetes-dynamic-pvc-'' @ ''uuid-1'',
                   ''-u'', ''kubernetes-dynamic-user-'' @ ''uuid-2'']
           ''ceph'' [''10.0.0.1:6789'', ''10.0.0.2:6789''] ''admin'' ''AQDadmin=='')
       = (createOutputPrefixed, None)
   \<and> Unmarshal sampleLib createOutputPrefixed
       = Some \<lparr>Path = ''10.0.0.1:6789:/volumes/vol1'', User = ''u1'', Secret = ''AQA==''\<rparr>
   \<and> CHR ''/'' \<in> set ''10.0.0.1:6789:/volumes/vol1''
   \<and> apiReachable (sampleWorld agentPrefixed)
   \<and> secretStore (sampleWorld agentPrefixed)
        (''ns1'', ''ceph-'' @ (''kubernetes-dynamic-user-'' @ ''uuid-2'') @ ''-secret'') = None
   \<and> (\<exists>pv src. fst (Provision sampleLib sampleProvisioner (sampleWorld agentPrefixed)
                        sampleOptions ''uuid-1'' ''uuid-2'') = Ok pv
          \<and> CephFS pv = Some src \<and> CephFS_Path src = ''/volumes/vol1'')
   \<and> fst (Provision sampleLib sampleProvisioner (sampleWorld agentOk) sampleOptions
          ''uuid-1'' ''uuid-2'') =
     Ok \<lparr>PV_Name = ''pvc-1'',
         Annotations = [provisionerIDAnn \<mapsto> ''uid-A'',
                        cephShareAnn \<mapsto> ''kubernetes-dynamic-pvc-uuid-1''],
         ReclaimPolicy = ''Delete'',
         AccessModes = [''ReadWriteOnce'', ''ReadOnlyMany'', ''ReadWriteMany''],
         Capacity = [''storage'' \<mapsto> 1],
         CephFS = Some \<lparr>Monitors = [''10.0.0.1:6789'', ''10.0.0.2:6789''],
                        CephFS_Path = ''/volumes/vol1'',
                        SecretRef = Some ''ceph-kubernetes-dynamic-user-uuid-2-secret'',
                        CephFS_User = ''kubernetes-dynamic-user-uuid-2''\<rparr>\<rparr>
   \<and> Unmarshal sampleLib (fst (runAgent (sampleWorld agentOk) sampleCreateCmd))
       = Some \<lparr>Path = ''/volumes/vol1'', User = ''u1'', Secret = ''AQA==''\<rparr>"
proof -
  let ?pvc = "\<lparr>PVC_Namespace = ''ns1'', Selector = None, Requests = [''storage'' \<mapsto> 1]\<rparr>"
  let ?res = "\<lparr>Path = ''10.0.0.1:6789:/volumes/vol1'', User = ''u1'', Secret = ''AQA==''\<rparr>"
  have h1: "PVC sampleOptions = Some ?pvc"
    by (simp add: sampleOptions_def)
  have h2: "Selector ?pvc = None"
    by simp
  have h3: "parseParameters sampleLib sampleProvisioner (sampleWorld agentPrefixed)
        (Parameters sampleOptions)
       = (''ceph'', ''admin'', ''AQDadmin=='', [''10.0.0.1:6789'', ''10.0.0.2:6789''], None)"
    by (simp add: sampleOptions_def sample_parseParameters)
  have h4: "runAgent (sampleWorld agentPrefixed)
        (agentCmd [''-n'', ''kubernetes-dynamic-pvc-'' @ ''uuid-1'',
                   ''-u'', ''kubernetes-dynamic-user-'' @ ''uuid-2'']
           ''ceph'' [''10.0.0.1:6789'', ''10.0.0.2:6789''] ''admin'' ''AQDadmin=='')
       = (createOutputPrefixed, None)"
    by (simp add: sampleWorld_def agentPrefixed_def)
  have h5: "Unmarshal sampleLib createOutputPrefixed = Some ?res"
    by (simp add: sample_defs)
  have h6: "User ?res \<noteq> ''''" "Secret ?res \<noteq> ''''" "CHR ''/'' \<in> set (Path ?res)"
    by simp_all
  have h7: "apiReachable (sampleWorld agentPrefixed)"
    "secretStore (sampleWorld agentPrefixed)
        (PVC_Namespace ?pvc, ''ceph-'' @ (''kubernetes-dynamic-user-'' @ ''uuid-2'') @ ''-secret'')
       = None"
    by (simp_all add: sampleWorld_def)
  have d: "dropWhile (\<lambda>x. x \<noteq> CHR ''/'') (Path ?res) = ''/volumes/vol1''"
    by simp
  from export_path_from_first_slash[of sampleLib sampleProvisioner "sampleWorld agentPrefixed"
         sampleOptions "''uuid-1''" "''uuid-2''" _ _ ?pvc "''ceph''" "''admin''" "''AQDadmin==''"
         "[''10.0.0.1:6789'', ''10.0.0.2:6789'']" createOutputPrefixed ?res,
         THEN conjunct2, rule_format,
         OF conjI[OF h1 conjI[OF h2 conjI[OF h3 conjI[OF h4 conjI[OF h5 conjI[OF h6(1)
              conjI[OF h6(2) conjI[OF h6(3) conjI[OF h7(1) h7(2)]]]]]]]]]]
  have prefixed: "\<exists>pv src. fst (Provision sampleLib sampleProvisioner (sampleWorld agentPrefixed)
                        sampleOptions ''uuid-1'' ''uuid-2'') = Ok pv
          \<and> CephFS pv = Some src \<and> CephFS_Path src = ''/volumes/vol1''"
    unfolding d .
  have a: "Unmarshal sampleLib (fst (runAgent (sampleWorld agentOk) sampleCreateCmd))
       = Some \<lparr>Path = ''/volumes/vol1'', User = ''u1'', Secret = ''AQA==''\<rparr>"
    by (simp add: sample_defs agentOk_def)
  have b: "fst (Provision sampleLib sampleProvisioner (sampleWorld agentOk) sampleOptions
          ''uuid-1'' ''uuid-2'') =
     Ok \<lparr>PV_Name = ''pvc-1'',
         Annotations = [provisionerIDAnn \<mapsto> ''uid-A'',
                        cephShareAnn \<mapsto> ''kubernetes-dynamic-pvc-uuid-1''],
         ReclaimPolicy = ''Delete'',
         AccessModes = [''ReadWriteOnce'', ''ReadOnlyMany'', ''ReadWriteMany''],
         Capacity = [''storage'' \<mapsto> 1],
         CephFS = Some \<lparr>Monitors = [''10.0.0.1:6789'', ''10.0.0.2:6789''],
                        CephFS_Path = ''/volumes/vol1'',
                        SecretRef = Some ''ceph-kubernetes-dynamic-user-uuid-2-secret'',
                        CephFS_User = ''kubernetes-dynamic-user-uuid-2''\<rparr>\<rparr>"
    by (simp add: Provision_def sample_parse sample_defs agentOk_def Let_def
          secretsCreate_def sliceFrom_def)
  have h7': "secretStore (sampleWorld agentPrefixed)
        (''ns1'', ''ceph-'' @ (''kubernetes-dynamic-user-'' @ ''uuid-2'') @ ''-secret'') = None"
    using h7(2) by simp
  have slash: "CHR ''/'' \<in> set ''10.0.0.1:6789:/volumes/vol1''"
    by simp
  from h1 h3 h4 h5 slash h7(1) h7' prefixed b a show ?thesis
    by (intro conjI)
qed

text \<open>
  What holds of C2 on the code: in a call of \<open>Provision\<close> that runs the agent as \<open>c\<close>,
  if the agent returns an error (a non-zero exit), or the record decoded from its output
  has an empty \<open>path\<close>, \<open>user\<close> or \<open>auth\<close>, or the output decodes to no record at all,
  then no volume is returned and the secret store is as it was before the call. The
  result is an error in the first two cases and the panic of line 104 in the third.
\<close>

lemma agent_failure_creates_no_secret:
  assumes "Provision L p w options uuid1 uuid2 = (r, w')"
      and "spawned w' = spawned w @ [c]"
      and "snd (runAgent w c) \<noteq> None
           \<or> Unmarshal L (fst (runAgent w c)) = None
           \<or> (\<exists>res. Unmarshal L (fst (runAgent w c)) = Some res
                  \<and> (Path res = '''' \<or> User res = '''' \<or> Secret res = ''''))"
  shows "secretStore w' = secretStore w
         \<and> ((\<exists>e. r = Err e)
              \<or> (snd (runAgent w c) = None \<and> Unmarshal L (fst (runAgent w c)) = None
                  \<and> r = Panic NilDereference))"
  using assms(1)
proof (cases rule: Provision_cases)
  case early
  with assms(2) show ?thesis by simp
next
  case (agent_failed cl adminId adminSecret mons c')
  then show ?thesis by simp
next
  case (no_record cl adminId adminSecret mons c')
  with assms(2) have "c' = c" by simp
  with no_record show ?thesis by simp
next
  case (create_failed cl adminId adminSecret mons c' res)
  with assms(2) have "c' = c" by simp
  with create_failed assms(3) show ?thesis by auto
next
  case (created pvc cl adminId adminSecret mons c' res)
  with assms(2) have "c' = c" by simp
  with created assms(3) show ?thesis by auto
qed

text \<open>
  C2 fails on the code. The agent exits with status 0 and prints the JSON literal
  \<^verbatim>\<open>null\<close>, an output with none of the three fields. \<^verbatim>\<open>json.Unmarshal\<close> sets \<^verbatim>\<open>res\<close> to
  nil, line 103 drops its result, and line 104 reads \<^verbatim>\<open>res.User\<close> through the nil
  pointer: \<open>Provision\<close> panics where the claim has it return an error. No secret is
  created and no volume is returned.
\<close>

theorem provision_null_output_panics:
  "runAgent (sampleWorld agentNull) sampleCreateCmd = (''null'', None)
   \<and> Unmarshal sampleLib ''null'' = None
   \<and> Provision sampleLib sampleProvisioner (sampleWorld agentNull) sampleOptions
        ''uuid-1'' ''uuid-2''
       = (Panic NilDereference, (sampleWorld agentNull)\<lparr>spawned := [sampleCreateCmd]\<rparr>)"
  by (simp add: Provision_def sample_parse sample_defs agentNull_def Let_def)

text \<open>
  C6 fails on the code. The agent reports the path \<^verbatim>\<open>vol1\<close> with a user and a key, all
  three non-empty. \<open>Index\<close> is \<open>-1\<close>, the slice expression of line 152 panics, and the
  panic comes after the secret of line 121 was created.
\<close>

theorem provision_slice_panics:
  "Unmarshal sampleLib (fst (agentNoSlash sampleCreateCmd))
     = Some \<lparr>Path = ''vol1'', User = ''u1'', Secret = ''AQA==''\<rparr>
   \<and> Index ''vol1'' CHR ''/'' = - 1
   \<and> fst (Provision sampleLib sampleProvisioner (sampleWorld agentNoSlash) sampleOptions
            ''uuid-1'' ''uuid-2'') = Panic SliceBoundsOutOfRange
   \<and> secretStore (snd (Provision sampleLib sampleProvisioner (sampleWorld agentNoSlash)
                         sampleOptions ''uuid-1'' ''uuid-2''))
        (''ns1'', ''ceph-kubernetes-dynamic-user-uuid-2-secret'')
       = Some \<lparr>Secret_Namespace = ''ns1'',
                Secret_Name = ''ceph-kubernetes-dynamic-user-uuid-2-secret'',
                Secret_Data = [(''key'', ''AQA=='')], Secret_Type = ''Opaque''\<rparr>"
  by (simp add: Provision_def sample_parse sample_defs agentNoSlash_def Let_def
        secretsCreate_def sliceFrom_def)

text \<open>
  C8, as the code has it: a call of \<open>Provision\<close> that reaches the allocation step spawns
  the agent once, with the share name \<^verbatim>\<open>kubernetes-dynamic-pvc-\<close> followed by the first
  generated identifier and the user \<^verbatim>\<open>kubernetes-dynamic-user-\<close> followed by the second;
  a returned volume carries that share name as its share annotation and that user as its
  CephFS user.
\<close>

theorem generated_names:
  assumes "Provision L p w options uuid1 uuid2 = (r, w')"
      and "spawned w' \<noteq> spawned w"
  shows "\<exists>c. spawned w' = spawned w @ [c] \<and> Cmd_Path c = provisionCmd
           \<and> Cmd_Args c = [''-n'', ''kubernetes-dynamic-pvc-'' @ uuid1,
                            ''-u'', ''kubernetes-dynamic-user-'' @ uuid2]
           \<and> (\<forall>pv. r = Ok pv \<longrightarrow>
                 Annotations pv cephShareAnn = Some (''kubernetes-dynamic-pvc-'' @ uuid1)
                 \<and> map_option CephFS_User (CephFS pv)
                     = Some (''kubernetes-dynamic-user-'' @ uuid2))"
  using assms(1)
proof (cases rule: Provision_cases)
  case early
  with assms(2) show ?thesis by simp
next
  case (agent_failed cl adminId adminSecret mons c)
  then show ?thesis by (auto simp: agentCmd_def)
next
  case (no_record cl adminId adminSecret mons c)
  then show ?thesis by (auto simp: agentCmd_def)
next
  case (create_failed cl adminId adminSecret mons c res)
  then show ?thesis by (auto simp: agentCmd_def)
next
  case (created pvc cl adminId adminSecret mons c res)
  then show ?thesis
    by (auto simp: agentCmd_def newVolume_def split: option.splits)
qed

theorem generated_names_witness:
  "spawned (snd (Provision sampleLib sampleProvisioner (sampleWorld agentExit1) sampleOptions
                   ''uuid-1'' ''uuid-2''))
     \<noteq> spawned (sampleWorld agentExit1)
   \<and> map Cmd_Args (spawned (snd (Provision sampleLib sampleProvisioner (sampleWorld agentExit1)
                   sampleOptions ''uuid-1'' ''uuid-2'')))
     = [[''-n'', ''kubernetes-dynamic-pvc-uuid-1'', ''-u'', ''kubernetes-dynamic-user-uuid-2'']]"
proof -
  let ?P1 = "Provision sampleLib sampleProvisioner (sampleWorld agentExit1) sampleOptions
                   ''uuid-1'' ''uuid-2''"
  have s0: "spawned (sampleWorld agentExit1) = []"
    by (simp add: sampleWorld_def)
  have s1: "spawned (snd ?P1) \<noteq> spawned (sampleWorld agentExit1)"
    by (simp add: Provision_def sample_parse sample_defs agentExit1_def Let_def)
  from generated_names[OF prod.collapse[symmetric] s1] s0 s1 show ?thesis
    by auto
qed

text \<open>
  C8 as stated fails: with the identifiers \<^verbatim>\<open>uuid-1\<close> and \<^verbatim>\<open>uuid-2\<close> the names
  passed to the agent are not \<^verbatim>\<open>dyn-pvc-uuid-1\<close> and \<^verbatim>\<open>dyn-user-uuid-2\<close>, and they do
  not begin with \<^verbatim>\<open>dyn-pvc-\<close> and \<^verbatim>\<open>dyn-user-\<close>.
\<close>

theorem share_name_prefix_differs:
  "Cmd_Args (last (spawned (snd (Provision sampleLib sampleProvisioner (sampleWorld agentOk)
                                    sampleOptions ''uuid-1'' ''uuid-2''))))
     = [''-n'', ''kubernetes-dynamic-pvc-uuid-1'', ''-u'', ''kubernetes-dynamic-user-uuid-2'']
   \<and> ''kubernetes-dynamic-pvc-uuid-1'' \<noteq> ''dyn-pvc-'' @ ''uuid-1''
   \<and> ''kubernetes-dynamic-user-uuid-2'' \<noteq> ''dyn-user-'' @ ''uuid-2''
   \<and> take 8 ''kubernetes-dynamic-pvc-uuid-1'' \<noteq> ''dyn-pvc-''
   \<and> take 9 ''kubernetes-dynamic-user-uuid-2'' \<noteq> ''dyn-user-''"
  by code_simp

subsection \<open>Delete\<close>

text \<open>
  On a volume that carries this instance's identity and a share annotation, an error of
  \<open>Delete\<close> comes from the class lookup, the parameters or the agent.
\<close>

lemma Delete_verified:
  assumes "Annotations v provisionerIDAnn = Some (identity p)"
      and "Annotations v cephShareAnn = Some share"
      and "fst (Delete L p w v) = Err e"
  shows "e = NoClassAnnotation \<or> (\<exists>a. e = ApiError a) \<or> (\<exists>k. e = InvalidOption k)
         \<or> e = MissingAdminSecretName \<or> (\<exists>ns n e'. e = FailedToGetAdminSecret ns n e')
         \<or> e = MissingMonitors \<or> (\<exists>x. e = CmdError x)"
proof (cases "getClassForVolume p w v")
  case (Ok cls)
  obtain cl adminId adminSecret mons perr where
    pp: "parseParameters L p w (Class_Parameters cls) = (cl, adminId, adminSecret, mons, perr)"
    by (cases "parseParameters L p w (Class_Parameters cls)")
  show ?thesis
  proof (cases perr)
    case None
    with assms Ok pp show ?thesis
      by (auto simp: Delete_def Let_def split: option.splits prod.splits)
  next
    case (Some pe)
    with assms Ok pp have "e = pe" by (simp add: Delete_def)
    with parseParameters_error[OF pp[unfolded Some]] show ?thesis by blast
  qed
next
  case (Err ce)
  with assms have "e = ce" by (simp add: Delete_def)
  with getClassForVolume_error[OF Err] show ?thesis by blast
next
  case (Panic x)
  with assms show ?thesis by (simp add: Delete_def)
qed

lemma sample_Delete_ok:
  "Delete sampleLib sampleProvisioner (sampleWorld agentOk) sampleVolume
     = (Ok (), (sampleWorld agentOk)\<lparr>spawned := [sampleDestroyCmd]\<rparr>)"
  by (simp add: Delete_def sample_annotations sample_getClass sample_parseParameters)
     (simp add: sampleProvisioner_def sampleVolume_def sampleWorld_def agentOk_def
        agentCmd_def provisionCmd_def sampleDestroyCmd_def)

lemma sample_Delete_exit1:
  "Delete sampleLib sampleProvisioner (sampleWorld agentExit1) sampleVolume
     = (Err (CmdError ''exit status 1''), (sampleWorld agentExit1)\<lparr>spawned := [sampleDestroyCmd]\<rparr>)"
  by (simp add: Delete_def sample_annotations sample_getClass sample_parseParameters)
     (simp add: sampleProvisioner_def sampleVolume_def sampleWorld_def agentExit1_def
        agentCmd_def provisionCmd_def sampleDestroyCmd_def)

text \<open>
  C3: the three outcomes of the ownership check of lines 170-180. On a volume stamped
  with identity \<open>a\<close> and a share, \<open>Delete\<close> by the instance with identity \<open>a\<close> passes
  the check: whatever it returns is none of the check's errors, and when the class and
  its parameters resolve and the volume has a CephFS source, it spawns the destroy
  subprocess for the stamped share and the recorded user. \<open>Delete\<close> by an instance with
  another identity returns an \<open>IgnoredError\<close> and leaves the world as it was, so it
  spawns no subprocess. On a volume without the identity annotation \<open>Delete\<close> returns the
  error \<open>IdentityAnnotationNotFound\<close>, which is not an \<open>IgnoredError\<close>.
\<close>

theorem ownership_tri_state:
  "(Annotations v provisionerIDAnn = Some a \<and> Annotations v cephShareAnn = Some share
      \<and> identity p = a \<longrightarrow>
      (\<forall>e. fst (Delete L p w v) = Err e \<longrightarrow>
         e \<noteq> IdentityAnnotationNotFound \<and> e \<noteq> ShareAnnotationNotFound \<and> \<not> isIgnoredError e))
   \<and> (Annotations v provisionerIDAnn = Some a \<and> Annotations v cephShareAnn = Some share
      \<and> identity p = a \<and> getClassForVolume p w v = Ok cls
      \<and> parseParameters L p w (Class_Parameters cls) = (cl, adminId, adminSecret, mons, None)
      \<and> CephFS v = Some src \<longrightarrow>
      spawned (snd (Delete L p w v)) =
        spawned w @ [agentCmd [''-r'', ''-n'', share, ''-u'', CephFS_User src]
                       cl mons adminId adminSecret])
   \<and> (Annotations v provisionerIDAnn = Some a \<and> identity p \<noteq> a \<longrightarrow>
        (\<exists>e. Delete L p w v = (Err e, w) \<and> isIgnoredError e))
   \<and> (Annotations v provisionerIDAnn = None \<longrightarrow>
        Delete L p w v = (Err IdentityAnnotationNotFound, w)
        \<and> \<not> isIgnoredError IdentityAnnotationNotFound)"
proof (intro conjI impI allI)
  fix e
  assume h: "Annotations v provisionerIDAnn = Some a \<and> Annotations v cephShareAnn = Some share
      \<and> identity p = a" and e: "fst (Delete L p w v) = Err e"
  from h have "Annotations v provisionerIDAnn = Some (identity p)"
    "Annotations v cephShareAnn = Some share" by simp_all
  from Delete_verified[OF this e]
  show "e \<noteq> IdentityAnnotationNotFound" "e \<noteq> ShareAnnotationNotFound" "\<not> isIgnoredError e"
    by auto
qed (auto simp: Delete_def Let_def split: prod.splits option.splits)

theorem ownership_tri_state_witness:
  "Annotations sampleVolume provisionerIDAnn = Some ''uid-A''
   \<and> Annotations sampleVolume cephShareAnn = Some ''kubernetes-dynamic-pvc-s1''
   \<and> identity sampleProvisioner = ''uid-A''
   \<and> Delete sampleLib sampleProvisioner (sampleWorld agentOk) sampleVolume
       = (Ok (), (sampleWorld agentOk)\<lparr>spawned := [sampleDestroyCmd]\<rparr>)
   \<and> fst (Delete sampleLib sampleProvisioner (sampleWorld agentExit1) sampleVolume)
       = Err (CmdError ''exit status 1'')
   \<and> identity otherProvisioner \<noteq> ''uid-A''
   \<and> Delete sampleLib otherProvisioner (sampleWorld agentOk) sampleVolume
       = (Err (IgnoredError ''identity annotation on PV does not match ours''),
          sampleWorld agentOk)
   \<and> Annotations unstampedVolume provisionerIDAnn = None
   \<and> Delete sampleLib sampleProvisioner (sampleWorld agentOk) unstampedVolume
       = (Err IdentityAnnotationNotFound, sampleWorld agentOk)"
proof -
  have i: "identity sampleProvisioner = ''uid-A''" "identity otherProvisioner \<noteq> ''uid-A''"
    by (simp_all add: sampleProvisioner_def otherProvisioner_def)
  have e: "fst (Delete sampleLib sampleProvisioner (sampleWorld agentExit1) sampleVolume)
       = Err (CmdError ''exit status 1'')"
    by (simp add: sample_Delete_exit1)
  note t1 = ownership_tri_state[of sampleVolume "''uid-A''" "''kubernetes-dynamic-pvc-s1''"
              sampleProvisioner sampleLib "sampleWorld agentExit1"]
  note t2 = ownership_tri_state[of sampleVolume "''uid-A''" "''kubernetes-dynamic-pvc-s1''"
              otherProvisioner sampleLib "sampleWorld agentOk"]
  note t3 = ownership_tri_state[of unstampedVolume "''uid-A''" "''kubernetes-dynamic-pvc-s1''"
              sampleProvisioner sampleLib "sampleWorld agentOk"]
  from t2 i sample_annotations
  have b: "Delete sampleLib otherProvisioner (sampleWorld agentOk) sampleVolume
       = (Err (IgnoredError ''identity annotation on PV does not match ours''),
          sampleWorld agentOk)"
    by (auto simp: Delete_def)
  from t3 sample_annotations
  have c: "Delete sampleLib sampleProvisioner (sampleWorld agentOk) unstampedVolume
       = (Err IdentityAnnotationNotFound, sampleWorld agentOk)"
    by simp
  from t1 i e b c sample_annotations sample_Delete_ok show ?thesis by simp
qed

text \<open>
  C9: \<open>Delete\<close> spawns a subprocess only for a volume whose identity annotation equals
  this instance's identity and that has a share annotation. The identity is compared
  first: a volume whose identity annotation differs gets the \<open>IgnoredError\<close>, with the
  world unchanged, whether it has a share annotation or not.
\<close>

theorem destroy_needs_both_annotations:
  "(spawned (snd (Delete L p w v)) \<noteq> spawned w \<longrightarrow>
      Annotations v provisionerIDAnn = Some (identity p)
      \<and> (\<exists>share. Annotations v cephShareAnn = Some share))
   \<and> (Annotations v provisionerIDAnn = Some a \<and> a \<noteq> identity p \<longrightarrow>
        fst (Delete L p w v) = Err (IgnoredError ''identity annotation on PV does not match ours'')
        \<and> snd (Delete L p w v) = w)"
  by (auto simp: Delete_def split: option.splits if_splits)

theorem destroy_needs_both_annotations_witness:
  "spawned (snd (Delete sampleLib sampleProvisioner (sampleWorld agentOk) sampleVolume))
     \<noteq> spawned (sampleWorld agentOk)
   \<and> Annotations sampleVolume provisionerIDAnn = Some (identity sampleProvisioner)
   \<and> Annotations sampleVolume cephShareAnn = Some ''kubernetes-dynamic-pvc-s1''
   \<and> Annotations volumeWithoutShare provisionerIDAnn = Some ''uid-A''
   \<and> ''uid-A'' \<noteq> identity otherProvisioner
   \<and> Annotations volumeWithoutShare cephShareAnn = None
   \<and> fst (Delete sampleLib otherProvisioner (sampleWorld agentOk) volumeWithoutShare)
       = Err (IgnoredError ''identity annotation on PV does not match ours'')
   \<and> snd (Delete sampleLib otherProvisioner (sampleWorld agentOk) volumeWithoutShare)
       = sampleWorld agentOk"
proof -
  have s: "spawned (snd (Delete sampleLib sampleProvisioner (sampleWorld agentOk) sampleVolume))
     \<noteq> spawned (sampleWorld agentOk)"
    by (simp add: sample_Delete_ok) (simp add: sampleWorld_def)
  have i: "''uid-A'' \<noteq> identity otherProvisioner" "identity sampleProvisioner = ''uid-A''"
    by (simp_all add: otherProvisioner_def sampleProvisioner_def)
  note t1 = destroy_needs_both_annotations[of sampleLib sampleProvisioner "sampleWorld agentOk"
              sampleVolume "''uid-A''", THEN conjunct1, rule_format, OF s]
  note t2 = destroy_needs_both_annotations[of sampleLib otherProvisioner "sampleWorld agentOk"
              volumeWithoutShare "''uid-A''", THEN conjunct2, rule_format,
              OF conjI[OF sample_annotations(4) i(1)]]
  from t1 t2 s i sample_annotations show ?thesis by simp
qed

text \<open>
  C10 fails on the code. The volume carries this instance's identity and a share, its
  class is found and the class parameters resolve, but it has no CephFS source: line 190
  dereferences the nil pointer and \<open>Delete\<close> panics.
\<close>

theorem delete_nil_source_panics:
  "Annotations volumeWithoutSource provisionerIDAnn = Some (identity sampleProvisioner)
   \<and> Annotations volumeWithoutSource cephShareAnn = Some ''kubernetes-dynamic-pvc-s1''
   \<and> getClassForVolume sampleProvisioner (sampleWorld agentOk) volumeWithoutSource
       = Ok \<lparr>Class_Parameters = sampleParameters\<rparr>
   \<and> parseParameters sampleLib sampleProvisioner (sampleWorld agentOk) sampleParameters
       = (''ceph'', ''admin'', ''AQDadmin=='', [''10.0.0.1:6789'', ''10.0.0.2:6789''], None)
   \<and> CephFS volumeWithoutSource = None
   \<and> Delete sampleLib sampleProvisioner (sampleWorld agentOk) volumeWithoutSource
       = (Panic NilDereference, sampleWorld agentOk)"
proof -
  have g: "getClassForVolume sampleProvisioner (sampleWorld agentOk) volumeWithoutSource
       = Ok \<lparr>Class_Parameters = sampleParameters\<rparr>"
    by (simp add: getClassForVolume_def volumeWithoutSource_def sampleVolume_def
          storageClassAnn_def provisionerIDAnn_def cephShareAnn_def sampleProvisioner_def
          storageClassesGet_def sampleWorld_def)
  have a: "Annotations volumeWithoutSource provisionerIDAnn = Some (identity sampleProvisioner)"
    "Annotations volumeWithoutSource cephShareAnn = Some ''kubernetes-dynamic-pvc-s1''"
    "CephFS volumeWithoutSource = None"
    by (simp_all add: volumeWithoutSource_def sampleVolume_def
          storageClassAnn_def provisionerIDAnn_def cephShareAnn_def sampleProvisioner_def)
  show ?thesis
    by (simp add: Delete_def a g sample_parseParameters)
qed

end
